theory Spec2Isabelle
  imports Main "HOL-Library.Word"
begin

unbundle bit_operations_syntax

section \<open>Machine types and failures\<close>

text \<open>
  The header is modelled for a 64-bit host: \<open>uintptr_t\<close>, \<open>size_t\<close>, \<open>uint64_t\<close> and
  \<open>int64_t\<close> are 64-bit words; signed readings go through \<open>sint\<close>.  A failed
  \<open>assert\<close> or \<open>llvm_unreachable\<close> is an \<open>Inl\<close> result naming the failed check.
\<close>

type_synonym uintptr_t = "64 word"
type_synonym size_t = "64 word"
type_synonym uint64_t = "64 word"
type_synonym int64_t = "64 word"

datatype error =
    Invalid_component_kind
  | Offset_is_too_big
  | Offset_is_too_small
  | Pointer_not_sufficiently_aligned
  | Dont_use_with_destructors
  | GlobalDecl_only_from_virtual_function
  | Only_function_pointers_kinds
  | Null_pointer
  | Cast_incompatible_type
  | Invalid_index
  | Index_not_zero
  | VBase_not_distinct

text \<open>
  Modelled from the spec: the byte-offset value type \<open>CharUnits\<close> is an external
  boundary type ("a signed byte-count value type supporting addition, comparison, and a
  raw integer conversion"); it wraps one signed 64-bit quantity.
\<close>

datatype CharUnits = fromQuantity (getQuantity: int64_t)

section \<open>Packed table-slot encoding\<close>

datatype Kind =
    CK_VCallOffset
  | CK_VBaseOffset
  | CK_OffsetToTop
  | CK_RTTI
  | CK_FunctionPointer
  | CK_CompleteDtorPointer
  | CK_DeletingDtorPointer
  | CK_UnusedFunctionPointer

text \<open>The numeric value of an enumerator, as used by \<open>| ComponentKind\<close>.\<close>

fun Kind_value :: "Kind \<Rightarrow> 64 word" where
  "Kind_value CK_VCallOffset = 0"
| "Kind_value CK_VBaseOffset = 1"
| "Kind_value CK_OffsetToTop = 2"
| "Kind_value CK_RTTI = 3"
| "Kind_value CK_FunctionPointer = 4"
| "Kind_value CK_CompleteDtorPointer = 5"
| "Kind_value CK_DeletingDtorPointer = 6"
| "Kind_value CK_UnusedFunctionPointer = 7"

text \<open>The cast \<open>(Kind)(Value & 0x7)\<close>; the argument is always below 8.\<close>

definition Kind_of_value :: "64 word \<Rightarrow> Kind" where
  "Kind_of_value w =
     (if w = 0 then CK_VCallOffset
      else if w = 1 then CK_VBaseOffset
      else if w = 2 then CK_OffsetToTop
      else if w = 3 then CK_RTTI
      else if w = 4 then CK_FunctionPointer
      else if w = 5 then CK_CompleteDtorPointer
      else if w = 6 then CK_DeletingDtorPointer
      else CK_UnusedFunctionPointer)"

record VTableComponent =
  Value :: int64_t

definition isDestructorKind_of :: "Kind \<Rightarrow> bool" where
  "isDestructorKind_of ComponentKind \<longleftrightarrow>
     ComponentKind = CK_CompleteDtorPointer \<or> ComponentKind = CK_DeletingDtorPointer"

definition isUsedFunctionPointerKind_of :: "Kind \<Rightarrow> bool" where
  "isUsedFunctionPointerKind_of ComponentKind \<longleftrightarrow>
     ComponentKind = CK_FunctionPointer \<or> isDestructorKind_of ComponentKind"

definition isFunctionPointerKind_of :: "Kind \<Rightarrow> bool" where
  "isFunctionPointerKind_of ComponentKind \<longleftrightarrow>
     isUsedFunctionPointerKind_of ComponentKind \<or> ComponentKind = CK_UnusedFunctionPointer"

definition isRTTIKind_of :: "Kind \<Rightarrow> bool" where
  "isRTTIKind_of ComponentKind \<longleftrightarrow> ComponentKind = CK_RTTI"

text \<open>The private constructor \<open>VTableComponent(Kind, CharUnits)\<close>.\<close>

definition VTableComponent_Offset :: "Kind \<Rightarrow> CharUnits \<Rightarrow> error + VTableComponent" where
  "VTableComponent_Offset ComponentKind Offset =
     (if \<not> (ComponentKind = CK_VCallOffset \<or> ComponentKind = CK_VBaseOffset \<or>
             ComponentKind = CK_OffsetToTop)
      then Inl Invalid_component_kind
      else if \<not> sint (getQuantity Offset) < 2 ^ 56 then Inl Offset_is_too_big
      else if \<not> sint (getQuantity Offset) \<ge> - (2 ^ 56) then Inl Offset_is_too_small
      else Inr \<lparr>Value = push_bit 3 (getQuantity Offset) OR Kind_value ComponentKind\<rparr>)"

text \<open>The private constructor \<open>VTableComponent(Kind, uintptr_t)\<close>.\<close>

definition VTableComponent_Ptr :: "Kind \<Rightarrow> uintptr_t \<Rightarrow> error + VTableComponent" where
  "VTableComponent_Ptr ComponentKind Ptr =
     (if \<not> (isRTTIKind_of ComponentKind \<or> isFunctionPointerKind_of ComponentKind \<or>
             ComponentKind = CK_VCallOffset \<or> ComponentKind = CK_VBaseOffset)
      then Inl Invalid_component_kind
      else if \<not> Ptr AND 7 = 0 then Inl Pointer_not_sufficiently_aligned
      else Inr \<lparr>Value = Ptr OR Kind_value ComponentKind\<rparr>)"

definition getKind :: "VTableComponent \<Rightarrow> Kind" where
  "getKind c = Kind_of_value (Value c AND 7)"

definition isDestructorKind :: "VTableComponent \<Rightarrow> bool" where
  "isDestructorKind c = isDestructorKind_of (getKind c)"

definition isUsedFunctionPointerKind :: "VTableComponent \<Rightarrow> bool" where
  "isUsedFunctionPointerKind c = isUsedFunctionPointerKind_of (getKind c)"

definition isFunctionPointerKind :: "VTableComponent \<Rightarrow> bool" where
  "isFunctionPointerKind c = isFunctionPointerKind_of (getKind c)"

definition isRTTIKind :: "VTableComponent \<Rightarrow> bool" where
  "isRTTIKind c = isRTTIKind_of (getKind c)"

text \<open>\<open>Value >> 3\<close> on the signed word is an arithmetic shift.\<close>

definition getOffset :: "VTableComponent \<Rightarrow> error + CharUnits" where
  "getOffset c =
     (if \<not> (getKind c = CK_VCallOffset \<or> getKind c = CK_VBaseOffset \<or>
             getKind c = CK_OffsetToTop)
      then Inl Invalid_component_kind
      else Inr (fromQuantity (signed_drop_bit 3 (Value c))))"

definition getPointer :: "VTableComponent \<Rightarrow> error + uintptr_t" where
  "getPointer c =
     (if \<not> (getKind c = CK_RTTI \<or> getKind c = CK_VCallOffset \<or>
             getKind c = CK_VBaseOffset \<or> isFunctionPointerKind c)
      then Inl Invalid_component_kind
      else Inr (Value c AND NOT 7))"

definition MakeVCallOffset :: "CharUnits \<Rightarrow> error + VTableComponent" where
  "MakeVCallOffset Offset = VTableComponent_Offset CK_VCallOffset Offset"

definition MakeVCall :: "uintptr_t \<Rightarrow> error + VTableComponent" where
  "MakeVCall RD = VTableComponent_Ptr CK_VCallOffset RD"

definition MakeVBaseOffset :: "CharUnits \<Rightarrow> error + VTableComponent" where
  "MakeVBaseOffset Offset = VTableComponent_Offset CK_VBaseOffset Offset"

definition MakeVBase :: "uintptr_t \<Rightarrow> error + VTableComponent" where
  "MakeVBase RD = VTableComponent_Ptr CK_VBaseOffset RD"

definition MakeOffsetToTop :: "CharUnits \<Rightarrow> error + VTableComponent" where
  "MakeOffsetToTop Offset = VTableComponent_Offset CK_OffsetToTop Offset"

definition MakeRTTI :: "uintptr_t \<Rightarrow> error + VTableComponent" where
  "MakeRTTI RD = VTableComponent_Ptr CK_RTTI RD"

definition MakeCompleteDtor :: "uintptr_t \<Rightarrow> error + VTableComponent" where
  "MakeCompleteDtor DD = VTableComponent_Ptr CK_CompleteDtorPointer DD"

definition MakeDeletingDtor :: "uintptr_t \<Rightarrow> error + VTableComponent" where
  "MakeDeletingDtor DD = VTableComponent_Ptr CK_DeletingDtorPointer DD"

definition getVCallOffset :: "VTableComponent \<Rightarrow> error + CharUnits" where
  "getVCallOffset c =
     (if getKind c \<noteq> CK_VCallOffset then Inl Invalid_component_kind else getOffset c)"

definition getVCall :: "VTableComponent \<Rightarrow> error + uintptr_t" where
  "getVCall c =
     (if getKind c \<noteq> CK_VCallOffset then Inl Invalid_component_kind else getPointer c)"

definition getVBaseOffset :: "VTableComponent \<Rightarrow> error + CharUnits" where
  "getVBaseOffset c =
     (if getKind c \<noteq> CK_VBaseOffset then Inl Invalid_component_kind else getOffset c)"

definition getVBase :: "VTableComponent \<Rightarrow> error + uintptr_t" where
  "getVBase c =
     (if getKind c \<noteq> CK_VBaseOffset then Inl Invalid_component_kind else getPointer c)"

definition getOffsetToTop :: "VTableComponent \<Rightarrow> error + CharUnits" where
  "getOffsetToTop c =
     (if getKind c \<noteq> CK_OffsetToTop then Inl Invalid_component_kind else getOffset c)"

definition getRTTIDecl :: "VTableComponent \<Rightarrow> error + uintptr_t" where
  "getRTTIDecl c =
     (if \<not> isRTTIKind c then Inl Invalid_component_kind else getPointer c)"

definition getDestructorDecl :: "VTableComponent \<Rightarrow> error + uintptr_t" where
  "getDestructorDecl c =
     (if \<not> isDestructorKind c then Inl Invalid_component_kind else getPointer c)"

definition getFunctionDecl :: "VTableComponent \<Rightarrow> error + uintptr_t" where
  "getFunctionDecl c =
     (if \<not> isFunctionPointerKind c then Inl Invalid_component_kind
      else if isDestructorKind c then getDestructorDecl c
      else getPointer c)"

definition getUnusedFunctionDecl :: "VTableComponent \<Rightarrow> error + uintptr_t" where
  "getUnusedFunctionDecl c =
     (if getKind c \<noteq> CK_UnusedFunctionPointer then Inl Invalid_component_kind
      else getPointer c)"

section \<open>Declarations and global declarations\<close>

text \<open>
  Modelled from the spec: the declaration classes (\<open>CXXRecordDecl\<close>, \<open>CXXMethodDecl\<close>,
  \<open>CXXDestructorDecl\<close>) and the casting predicates \<open>isa\<close>, \<open>cast\<close> and \<open>dyn_cast\<close> are not
  part of the sources at hand.  A declaration pointer is an address; the declarations of
  a translation unit are a store from addresses to nodes carrying the dynamic class, the
  canonical declaration and the owning class.  An address without a node (the null
  pointer in particular) makes \<open>isa\<close>, \<open>cast\<close> and \<open>dyn_cast\<close> fail.
\<close>

datatype DeclClass =
    CXXMethodDecl
  | CXXConstructorDecl
  | CXXConversionDecl
  | CXXDestructorDecl
  | CXXRecordDecl
  | OtherDecl

record Decl =
  getDeclClass :: DeclClass
  getCanonicalDecl :: uintptr_t
  getParent :: uintptr_t

type_synonym ASTContext = "uintptr_t \<Rightarrow> Decl option"

definition classof_CXXMethodDecl :: "DeclClass \<Rightarrow> bool" where
  "classof_CXXMethodDecl k \<longleftrightarrow>
     k = CXXMethodDecl \<or> k = CXXConstructorDecl \<or> k = CXXConversionDecl \<or>
     k = CXXDestructorDecl"

definition isa_CXXDestructorDecl :: "ASTContext \<Rightarrow> uintptr_t \<Rightarrow> error + bool" where
  "isa_CXXDestructorDecl ast p =
     (case ast p of None \<Rightarrow> Inl Null_pointer
      | Some d \<Rightarrow> Inr (getDeclClass d = CXXDestructorDecl))"

definition dyn_cast_CXXDestructorDecl :: "ASTContext \<Rightarrow> uintptr_t \<Rightarrow> error + uintptr_t" where
  "dyn_cast_CXXDestructorDecl ast p =
     (case isa_CXXDestructorDecl ast p of Inl e \<Rightarrow> Inl e
      | Inr b \<Rightarrow> Inr (if b then p else 0))"

definition cast_CXXMethodDecl :: "ASTContext \<Rightarrow> uintptr_t \<Rightarrow> error + uintptr_t" where
  "cast_CXXMethodDecl ast p =
     (case ast p of None \<Rightarrow> Inl Null_pointer
      | Some d \<Rightarrow>
          if classof_CXXMethodDecl (getDeclClass d) then Inr p
          else Inl Cast_incompatible_type)"

text \<open>
  Modelled from the spec: \<open>GlobalDecl\<close> is an external boundary type, "a global
  declaration identifier that pairs a method or destructor declaration with a
  destructor-flavor discriminant".  The two constructors are the two the header calls:
  from a function declaration, and from a destructor declaration with its flavor.
\<close>

datatype CXXDtorType = Dtor_Deleting | Dtor_Complete | Dtor_Base | Dtor_Comdat

datatype GlobalDecl =
    GlobalDecl_Function uintptr_t
  | GlobalDecl_Dtor uintptr_t CXXDtorType

fun getDecl :: "GlobalDecl \<Rightarrow> uintptr_t" where
  "getDecl (GlobalDecl_Function D) = D"
| "getDecl (GlobalDecl_Dtor D T) = D"

fun getDtorType :: "GlobalDecl \<Rightarrow> CXXDtorType option" where
  "getDtorType (GlobalDecl_Function D) = None"
| "getDtorType (GlobalDecl_Dtor D T) = Some T"

definition MakeFunction :: "ASTContext \<Rightarrow> uintptr_t \<Rightarrow> error + VTableComponent" where
  "MakeFunction ast MD =
     (case isa_CXXDestructorDecl ast MD of Inl e \<Rightarrow> Inl e
      | Inr b \<Rightarrow>
          if b then Inl Dont_use_with_destructors
          else VTableComponent_Ptr CK_FunctionPointer MD)"

definition MakeUnusedFunction :: "ASTContext \<Rightarrow> uintptr_t \<Rightarrow> error + VTableComponent" where
  "MakeUnusedFunction ast MD =
     (case isa_CXXDestructorDecl ast MD of Inl e \<Rightarrow> Inl e
      | Inr b \<Rightarrow>
          if b then Inl Dont_use_with_destructors
          else VTableComponent_Ptr CK_UnusedFunctionPointer MD)"

definition getGlobalDecl :: "ASTContext \<Rightarrow> VTableComponent \<Rightarrow> error + GlobalDecl" where
  "getGlobalDecl ast c =
     (if \<not> isUsedFunctionPointerKind c then Inl GlobalDecl_only_from_virtual_function
      else case getFunctionDecl c of Inl e \<Rightarrow> Inl e
      | Inr FD \<Rightarrow>
         (case dyn_cast_CXXDestructorDecl ast FD of Inl e \<Rightarrow> Inl e
          | Inr DtorDecl \<Rightarrow>
             (case getKind c of
                CK_FunctionPointer \<Rightarrow>
                  (case getFunctionDecl c of Inl e \<Rightarrow> Inl e
                   | Inr MD \<Rightarrow> Inr (GlobalDecl_Function MD))
              | CK_CompleteDtorPointer \<Rightarrow> Inr (GlobalDecl_Dtor DtorDecl Dtor_Complete)
              | CK_DeletingDtorPointer \<Rightarrow> Inr (GlobalDecl_Dtor DtorDecl Dtor_Deleting)
              | CK_VCallOffset \<Rightarrow> Inl Only_function_pointers_kinds
              | CK_VBaseOffset \<Rightarrow> Inl Only_function_pointers_kinds
              | CK_OffsetToTop \<Rightarrow> Inl Only_function_pointers_kinds
              | CK_RTTI \<Rightarrow> Inl Only_function_pointers_kinds
              | CK_UnusedFunctionPointer \<Rightarrow> Inl Only_function_pointers_kinds)))"

section \<open>Table layout\<close>

text \<open>
  \<open>ArrayRef\<close> comes from the LLVM support library: \<open>size()\<close> is the element count as a
  \<open>size_t\<close>, and \<open>operator[]\<close> asserts that the index is below the size.
\<close>

definition ArrayRef_size :: "'a list \<Rightarrow> size_t" where
  "ArrayRef_size xs = of_nat (length xs)"

definition ArrayRef_index :: "'a list \<Rightarrow> size_t \<Rightarrow> error + 'a" where
  "ArrayRef_index xs i = (if unat i < length xs then Inr (xs ! unat i) else Inl Invalid_index)"

record AddressPointLocation =
  VTableIndex :: "32 word"
  AddressPointIndex :: "32 word"

text \<open>
  The base-subobject key \<open>'b\<close> and the thunk description \<open>'t\<close> are external boundary
  types and stay type parameters.
\<close>

record ('b, 't) VTableLayout =
  VTableIndices :: "size_t list"
  VTableComponents :: "VTableComponent list"
  VTableThunks :: "(uint64_t \<times> 't) list"
  AddressPoints :: "'b \<Rightarrow> AddressPointLocation option"
  PrimaryVirtualMethodsCount :: "32 word"

definition vtable_components :: "('b, 't) VTableLayout \<Rightarrow> VTableComponent list" where
  "vtable_components L = VTableComponents L"

definition getNumVTables :: "('b, 't) VTableLayout \<Rightarrow> size_t" where
  "getNumVTables L =
     (if VTableIndices L = [] then 1 else ArrayRef_size (VTableIndices L))"

definition getVTableOffset :: "('b, 't) VTableLayout \<Rightarrow> size_t \<Rightarrow> error + size_t" where
  "getVTableOffset L i =
     (if VTableIndices L = [] then (if i = 0 then Inr 0 else Inl Index_not_zero)
      else ArrayRef_index (VTableIndices L) i)"

definition getVTableSize :: "('b, 't) VTableLayout \<Rightarrow> size_t \<Rightarrow> error + size_t" where
  "getVTableSize L i =
     (if VTableIndices L = []
      then (if i = 0 then Inr (ArrayRef_size (vtable_components L)) else Inl Index_not_zero)
      else case ArrayRef_index (VTableIndices L) i of Inl e \<Rightarrow> Inl e
      | Inr thisIndex \<Rightarrow>
          (case (if i + 1 = ArrayRef_size (VTableIndices L)
                 then Inr (ArrayRef_size (vtable_components L))
                 else ArrayRef_index (VTableIndices L) (i + 1)) of
             Inl e \<Rightarrow> Inl e
           | Inr nextIndex \<Rightarrow> Inr (nextIndex - thisIndex)))"

section \<open>Shared builder infrastructure and the Microsoft override\<close>

text \<open>
  The caches of the derived builders live in the record extension.  The pure virtual
  \<open>computeVTableRelatedInformation\<close> has no body in the header: it is a parameter, a
  state transformer that may fail.
\<close>

record 't VTableContextBase =
  Thunks :: "uintptr_t \<Rightarrow> 't list option"
  IsMicrosoftABI :: bool

definition isMicrosoft :: "('t, 'm) VTableContextBase_scheme \<Rightarrow> bool" where
  "isMicrosoft ctx = IsMicrosoftABI ctx"

definition VTableContextBase_getThunkInfo ::
  "ASTContext \<Rightarrow>
   (uintptr_t \<Rightarrow> ('t, 'm) VTableContextBase_scheme \<Rightarrow> error + ('t, 'm) VTableContextBase_scheme) \<Rightarrow>
   ('t, 'm) VTableContextBase_scheme \<Rightarrow> GlobalDecl \<Rightarrow>
   error + ('t list option \<times> ('t, 'm) VTableContextBase_scheme)" where
  "VTableContextBase_getThunkInfo ast computeVTableRelatedInformation ctx GD =
     (case ast (getDecl GD) of None \<Rightarrow> Inl Null_pointer
      | Some D \<Rightarrow>
         (case cast_CXXMethodDecl ast (getCanonicalDecl D) of Inl e \<Rightarrow> Inl e
          | Inr MD \<Rightarrow>
             (case ast MD of None \<Rightarrow> Inl Null_pointer
              | Some M \<Rightarrow>
                 (case computeVTableRelatedInformation (getParent M) ctx of Inl e \<Rightarrow> Inl e
                  | Inr ctx' \<Rightarrow>
                     (case Thunks ctx' MD of
                        None \<Rightarrow> Inr (None, ctx')
                      | Some I \<Rightarrow> Inr (Some I, ctx'))))))"

definition MicrosoftVTableContext_getThunkInfo ::
  "ASTContext \<Rightarrow>
   (uintptr_t \<Rightarrow> ('t, 'm) VTableContextBase_scheme \<Rightarrow> error + ('t, 'm) VTableContextBase_scheme) \<Rightarrow>
   ('t, 'm) VTableContextBase_scheme \<Rightarrow> GlobalDecl \<Rightarrow>
   error + ('t list option \<times> ('t, 'm) VTableContextBase_scheme)" where
  "MicrosoftVTableContext_getThunkInfo ast computeVTableRelatedInformation ctx GD =
     (case isa_CXXDestructorDecl ast (getDecl GD) of Inl e \<Rightarrow> Inl e
      | Inr b \<Rightarrow>
          if b \<and> getDtorType GD = Some Dtor_Complete then Inr (None, ctx)
          else VTableContextBase_getThunkInfo ast computeVTableRelatedInformation ctx GD)"

section \<open>Method locations of the Microsoft builder\<close>

record MethodVFTableLocation =
  VBTableIndex :: uint64_t
  VBase :: uintptr_t
  VFPtrOffset :: CharUnits
  Index :: uint64_t

text \<open>\<open>CharUnits\<close> compare by their signed quantity.\<close>

definition CharUnits_less :: "CharUnits \<Rightarrow> CharUnits \<Rightarrow> bool" where
  "CharUnits_less a b \<longleftrightarrow> sint (getQuantity a) < sint (getQuantity b)"

text \<open>\<open>operator<\<close> of the two-element tuples built by \<open>std::tie\<close>.\<close>

definition tie_less :: "CharUnits \<times> uint64_t \<Rightarrow> CharUnits \<times> uint64_t \<Rightarrow> bool" where
  "tie_less x y \<longleftrightarrow>
     CharUnits_less (fst x) (fst y) \<or> (\<not> CharUnits_less (fst y) (fst x) \<and> snd x < snd y)"

definition operator_less :: "MethodVFTableLocation \<Rightarrow> MethodVFTableLocation \<Rightarrow> error + bool" where
  "operator_less this other =
     (if VBTableIndex this \<noteq> VBTableIndex other
      then (if \<not> VBase this \<noteq> VBase other then Inl VBase_not_distinct
            else Inr (VBTableIndex this < VBTableIndex other))
      else Inr (tie_less (VFPtrOffset this, Index this) (VFPtrOffset other, Index other)))"

text \<open>
  The order the data model describes: lexicographic on the virtual-base-table index,
  then the vfptr offset, then the slot index.
\<close>

definition location_key :: "MethodVFTableLocation \<Rightarrow> nat \<times> int \<times> nat" where
  "location_key l = (unat (VBTableIndex l), sint (getQuantity (VFPtrOffset l)), unat (Index l))"

definition lexicographic_less :: "nat \<times> int \<times> nat \<Rightarrow> nat \<times> int \<times> nat \<Rightarrow> bool" where
  "lexicographic_less x y \<longleftrightarrow>
     fst x < fst y \<or>
     (fst x = fst y \<and>
       (fst (snd x) < fst (snd y) \<or> (fst (snd x) = fst (snd y) \<and> snd (snd x) < snd (snd y))))"

section \<open>The nullability fixture\<close>










subsection \<open>A model of the analysis\<close>

















section \<open>Example data\<close>

text \<open>
  A small translation unit.  The class at address 8192 has a method declared at 4096
  and redeclared (defined out of line) at 4112, a second method at 4120, and a destructor
  at 4104.  Address 4097 is a misaligned pointer into the first method.
\<close>

definition example_ast :: ASTContext where
  "example_ast =
     (\<lambda>p. if p = 4096 \<or> p = 4097 \<or> p = 4112
          then Some \<lparr>getDeclClass = CXXMethodDecl, getCanonicalDecl = 4096, getParent = 8192\<rparr>
          else if p = 4120
          then Some \<lparr>getDeclClass = CXXMethodDecl, getCanonicalDecl = 4120, getParent = 8192\<rparr>
          else if p = 4104
          then Some \<lparr>getDeclClass = CXXDestructorDecl, getCanonicalDecl = 4104, getParent = 8192\<rparr>
          else if p = 8192
          then Some \<lparr>getDeclClass = CXXRecordDecl, getCanonicalDecl = 8192, getParent = 0\<rparr>
          else None)"

text \<open>The same translation unit without the destructor.\<close>

definition example_methods_ast :: ASTContext where
  "example_methods_ast =
     (\<lambda>p. if p = 4096 \<or> p = 4112
          then Some \<lparr>getDeclClass = CXXMethodDecl, getCanonicalDecl = 4096, getParent = 8192\<rparr>
          else if p = 4120
          then Some \<lparr>getDeclClass = CXXMethodDecl, getCanonicalDecl = 4120, getParent = 8192\<rparr>
          else if p = 8192
          then Some \<lparr>getDeclClass = CXXRecordDecl, getCanonicalDecl = 8192, getParent = 0\<rparr>
          else None)"

text \<open>
  A builder whose layout computation for the class at 8192 records one thunk for the
  first method and two for the destructor; thunk descriptions are plain numbers.
\<close>

definition example_compute ::
  "uintptr_t \<Rightarrow> nat VTableContextBase \<Rightarrow> error + nat VTableContextBase" where
  "example_compute RD ctx =
     (if RD = 8192
      then Inr (ctx\<lparr>Thunks := (Thunks ctx)(4096 \<mapsto> [7], 4104 \<mapsto> [1, 2])\<rparr>)
      else Inr ctx)"

definition example_ctx :: "nat VTableContextBase" where
  "example_ctx = \<lparr>Thunks = (\<lambda>p. None), IsMicrosoftABI = True\<rparr>"

definition example_ctx_computed :: "nat VTableContextBase" where
  "example_ctx_computed =
     \<lparr>Thunks = (\<lambda>p. None)(4096 \<mapsto> [7], 4104 \<mapsto> [1, 2]), IsMicrosoftABI = True\<rparr>"

text \<open>
  Two layouts: a single table of two slots with the empty start-index shorthand, and a
  group of three tables over twelve slots.
\<close>

definition example_single :: "(unit, unit) VTableLayout" where
  "example_single =
     \<lparr>VTableIndices = [], VTableComponents = [\<lparr>Value = 2\<rparr>, \<lparr>Value = 8195\<rparr>],
      VTableThunks = [], AddressPoints = (\<lambda>b. None), PrimaryVirtualMethodsCount = 0\<rparr>"

definition example_group :: "(unit, unit) VTableLayout" where
  "example_group =
     \<lparr>VTableIndices = [0, 5, 9], VTableComponents = replicate 12 \<lparr>Value = 2\<rparr>,
      VTableThunks = [], AddressPoints = (\<lambda>b. None), PrimaryVirtualMethodsCount = 0\<rparr>"


section \<open>Slot encoding: round trips and preconditions\<close>

lemma Kind_value_low: "Kind_value k AND 7 = Kind_value k"
  by (cases k) simp_all

lemma Kind_value_high: "Kind_value k AND NOT 7 = 0"
  by (cases k) simp_all

lemma Kind_of_value_Kind_value: "Kind_of_value (Kind_value k) = k"
  by (cases k) (simp_all add: Kind_of_value_def)

lemma push_bit_3_low: "push_bit 3 (w :: 64 word) AND 7 = 0"
proof -
  have "push_bit 3 w AND mask 3 = 0"
    by (simp flip: take_bit_eq_mask add: take_bit_push_bit)
  then show ?thesis by (simp add: mask_eq_exp_minus_1)
qed

lemma getKind_Offset: "getKind \<lparr>Value = push_bit 3 w OR Kind_value k\<rparr> = k"
  by (simp add: getKind_def bit.conj_disj_distrib2 push_bit_3_low Kind_value_low Kind_of_value_Kind_value)

lemma getKind_Ptr: "p AND 7 = 0 \<Longrightarrow> getKind \<lparr>Value = p OR Kind_value k\<rparr> = k"
  by (simp add: getKind_def bit.conj_disj_distrib2 Kind_value_low Kind_of_value_Kind_value)

lemma aligned_high:
  assumes "(p :: 64 word) AND 7 = 0" shows "p AND NOT 7 = p"
proof -
  have "p = p AND (7 OR NOT 7)" by simp
  also have "\<dots> = (p AND 7) OR (p AND NOT 7)" by (simp only: bit.conj_disj_distrib)
  finally show ?thesis using assms by simp
qed

lemma payload_Ptr: "p AND 7 = 0 \<Longrightarrow> (p OR Kind_value k) AND NOT 7 = p"
  by (simp only: bit.conj_disj_distrib2 Kind_value_high aligned_high bit.disj_zero_right)

lemma Kind_value_less: "uint (Kind_value k) < 8"
  by (cases k) simp_all

lemma push_bit_3_Kind_disjoint: "push_bit 3 (w :: 64 word) AND Kind_value k = 0"
proof -
  have "push_bit 3 w AND Kind_value k = (push_bit 3 w AND 7) AND Kind_value k"
    by (simp only: and.assoc and.commute [of 7] Kind_value_low)
  then show ?thesis by (simp only: push_bit_3_low and.left_neutral zero_and_eq)
qed

lemma offset_word:
  "push_bit 3 (w :: 64 word) OR Kind_value k = word_of_int (8 * sint w + uint (Kind_value k))"
proof -
  have "push_bit 3 w OR Kind_value k = push_bit 3 w + Kind_value k"
    by (rule disjunctive_add_eq_or [symmetric]) (rule push_bit_3_Kind_disjoint)
  also have "\<dots> = word_of_int (8 * sint w + uint (Kind_value k))"
    by (simp add: push_bit_eq_mult)
  finally show ?thesis .
qed

lemma slot_range:
  fixes s u :: int
  assumes "- (2 ^ 56) \<le> s" "s < 2 ^ 56" "0 \<le> u" "u < 8"
  shows "- (2 ^ 63) \<le> 8 * s + u" and "8 * s + u < 2 ^ 63" and "(8 * s + u) div 8 = s"
  using assms by simp_all

lemma offset_roundtrip:
  assumes "- (2 ^ 56) \<le> sint (w :: 64 word)" "sint w < 2 ^ 56"
  shows "signed_drop_bit 3 (push_bit 3 w OR Kind_value k) = w"
proof -
  let ?z = "8 * sint w + uint (Kind_value k)"
  note r = slot_range [OF assms uint_ge_0 [of "Kind_value k"] Kind_value_less [of k]]
  have "sint (word_of_int z :: 64 word) = signed_take_bit 63 z" for z :: int
    by (simp add: sint_sbintrunc')
  then have "sint (word_of_int ?z :: 64 word) = signed_take_bit 63 ?z" .
  also have "\<dots> = ?z"
    by (rule signed_take_bit_int_eq_self) (use r in simp_all)
  finally have "sint (signed_drop_bit 3 (push_bit 3 w OR Kind_value k)) = ?z div 8"
    by (simp add: sint_signed_drop_bit_eq offset_word drop_bit_eq_div)
  also have "\<dots> = sint w" by (rule r(3))
  finally show ?thesis by (rule signed_word_eqI)
qed

lemma VTableComponent_Offset_ok:
  assumes "- (2 ^ 56) \<le> sint (getQuantity Offset)" "sint (getQuantity Offset) < 2 ^ 56"
    and "k = CK_VCallOffset \<or> k = CK_VBaseOffset \<or> k = CK_OffsetToTop"
  shows "VTableComponent_Offset k Offset =
           Inr \<lparr>Value = push_bit 3 (getQuantity Offset) OR Kind_value k\<rparr>"
  using assms by (auto simp add: VTableComponent_Offset_def)

lemma getOffset_Offset:
  assumes "- (2 ^ 56) \<le> sint (getQuantity Offset)" "sint (getQuantity Offset) < 2 ^ 56"
    and "k = CK_VCallOffset \<or> k = CK_VBaseOffset \<or> k = CK_OffsetToTop"
  shows "getOffset \<lparr>Value = push_bit 3 (getQuantity Offset) OR Kind_value k\<rparr> = Inr Offset"
  using assms(3) by (auto simp add: getOffset_def getKind_Offset offset_roundtrip [OF assms(1,2)])

lemma pointer_kind_cases:
  "(isRTTIKind_of k \<or> isFunctionPointerKind_of k \<or> k = CK_VCallOffset \<or> k = CK_VBaseOffset)
     \<longleftrightarrow> k \<noteq> CK_OffsetToTop"
  by (cases k)
    (simp_all add: isRTTIKind_of_def isFunctionPointerKind_of_def
      isUsedFunctionPointerKind_of_def isDestructorKind_of_def)

lemma VTableComponent_Ptr_eq:
  "VTableComponent_Ptr k Ptr =
     (if k = CK_OffsetToTop then Inl Invalid_component_kind
      else if Ptr AND 7 \<noteq> 0 then Inl Pointer_not_sufficiently_aligned
      else Inr \<lparr>Value = Ptr OR Kind_value k\<rparr>)"
  unfolding VTableComponent_Ptr_def pointer_kind_cases by simp

lemma getPointer_Ptr:
  assumes "Ptr AND 7 = 0" "k \<noteq> CK_OffsetToTop"
  shows "getPointer \<lparr>Value = Ptr OR Kind_value k\<rparr> = Inr Ptr"
proof -
  have "getKind \<lparr>Value = Ptr OR Kind_value k\<rparr> = k"
    using assms(1) by (rule getKind_Ptr)
  moreover have "(Ptr OR Kind_value k) AND NOT 7 = Ptr"
    using assms(1) by (rule payload_Ptr)
  ultimately show ?thesis
    using assms(2) pointer_kind_cases [of k]
    by (simp only: getPointer_def isFunctionPointerKind_def isRTTIKind_of_def
        VTableComponent.simps) auto
qed

lemma Offset_slot:
  assumes "- (2 ^ 56) \<le> sint (getQuantity Offset)" "sint (getQuantity Offset) < 2 ^ 56"
    and "k = CK_VCallOffset \<or> k = CK_VBaseOffset \<or> k = CK_OffsetToTop"
  shows "\<exists>c. VTableComponent_Offset k Offset = Inr c \<and> getKind c = k \<and>
             getOffset c = Inr Offset"
  using VTableComponent_Offset_ok [OF assms] getOffset_Offset [OF assms]
    getKind_Offset [of "getQuantity Offset" k]
  by blast

text \<open>
  C1 (slot encoding round-trip).  For every byte offset whose signed quantity lies in
  \<open>[-2^56, 2^56)\<close>, each of the three offset constructors succeeds, and the slot reads back
  the constructed kind through \<open>getKind\<close> and exactly the offset through the matching
  accessor.  A placeholder slot constructed from a class pointer by \<open>MakeVCall\<close> or
  \<open>MakeVBase\<close> reads back the same kind and the same pointer.
\<close>

theorem slot_encoding_roundtrip:
  assumes "- (2 ^ 56) \<le> sint (getQuantity Offset)" and "sint (getQuantity Offset) < 2 ^ 56"
  shows "(\<exists>c. MakeVCallOffset Offset = Inr c \<and> getKind c = CK_VCallOffset \<and>
              getVCallOffset c = Inr Offset) \<and>
         (\<exists>c. MakeVBaseOffset Offset = Inr c \<and> getKind c = CK_VBaseOffset \<and>
              getVBaseOffset c = Inr Offset) \<and>
         (\<exists>c. MakeOffsetToTop Offset = Inr c \<and> getKind c = CK_OffsetToTop \<and>
              getOffsetToTop c = Inr Offset) \<and>
         (MakeVCall RD = Inr c1 \<longrightarrow> getKind c1 = CK_VCallOffset \<and> getVCall c1 = Inr RD) \<and>
         (MakeVBase RD = Inr c2 \<longrightarrow> getKind c2 = CK_VBaseOffset \<and> getVBase c2 = Inr RD)"
proof (intro conjI impI)
  show "\<exists>c. MakeVCallOffset Offset = Inr c \<and> getKind c = CK_VCallOffset \<and>
              getVCallOffset c = Inr Offset"
    using Offset_slot [OF assms, of CK_VCallOffset]
    by (auto simp add: MakeVCallOffset_def getVCallOffset_def)
  show "\<exists>c. MakeVBaseOffset Offset = Inr c \<and> getKind c = CK_VBaseOffset \<and>
              getVBaseOffset c = Inr Offset"
    using Offset_slot [OF assms, of CK_VBaseOffset]
    by (auto simp add: MakeVBaseOffset_def getVBaseOffset_def)
  show "\<exists>c. MakeOffsetToTop Offset = Inr c \<and> getKind c = CK_OffsetToTop \<and>
              getOffsetToTop c = Inr Offset"
    using Offset_slot [OF assms, of CK_OffsetToTop]
    by (auto simp add: MakeOffsetToTop_def getOffsetToTop_def)
next
  assume "MakeVCall RD = Inr c1"
  then have *: "RD AND 7 = 0" "c1 = \<lparr>Value = RD OR Kind_value CK_VCallOffset\<rparr>"
    by (simp_all add: MakeVCall_def VTableComponent_Ptr_eq split: if_splits)
  show "getKind c1 = CK_VCallOffset"
    unfolding *(2) using *(1) by (rule getKind_Ptr)
  then show "getVCall c1 = Inr RD"
    unfolding getVCall_def *(2) using getPointer_Ptr [OF *(1), of CK_VCallOffset] by simp
next
  assume "MakeVBase RD = Inr c2"
  then have *: "RD AND 7 = 0" "c2 = \<lparr>Value = RD OR Kind_value CK_VBaseOffset\<rparr>"
    by (simp_all add: MakeVBase_def VTableComponent_Ptr_eq split: if_splits)
  show "getKind c2 = CK_VBaseOffset"
    unfolding *(2) using *(1) by (rule getKind_Ptr)
  then show "getVBase c2 = Inr RD"
    unfolding getVBase_def *(2) using getPointer_Ptr [OF *(1), of CK_VBaseOffset] by simp
qed

theorem slot_encoding_roundtrip_witness:
  "- (2 ^ 56) \<le> sint (getQuantity (fromQuantity (- 16))) \<and>
   sint (getQuantity (fromQuantity (- 16))) < 2 ^ 56 \<and>
   MakeVCallOffset (fromQuantity (- 16)) = Inr \<lparr>Value = - 128\<rparr> \<and>
   getVCallOffset \<lparr>Value = - 128\<rparr> = Inr (fromQuantity (- 16)) \<and>
   MakeVCall 4096 = Inr \<lparr>Value = 4096\<rparr> \<and>
   getKind \<lparr>Value = 4096\<rparr> = CK_VCallOffset \<and> getVCall \<lparr>Value = 4096\<rparr> = Inr 4096 \<and>
   MakeVBase 4096 = Inr \<lparr>Value = 4097\<rparr> \<and>
   getKind \<lparr>Value = 4097\<rparr> = CK_VBaseOffset \<and> getVBase \<lparr>Value = 4097\<rparr> = Inr 4096"
  using slot_encoding_roundtrip [of "fromQuantity (- 16)" 4096 "\<lparr>Value = 4096\<rparr>" "\<lparr>Value = 4097\<rparr>"]
  by (simp add: MakeVCallOffset_def VTableComponent_Offset_def MakeVCall_def MakeVBase_def
      VTableComponent_Ptr_eq getVCallOffset_def getOffset_def getKind_def Kind_of_value_def)


lemma Ptr_slot:
  assumes "Ptr AND 7 = 0" "k \<noteq> CK_OffsetToTop"
  shows "\<exists>c. VTableComponent_Ptr k Ptr = Inr c \<and> getKind c = k \<and> getPointer c = Inr Ptr"
  using assms getKind_Ptr [OF assms(1), of k] getPointer_Ptr [OF assms]
  by (simp add: VTableComponent_Ptr_eq)

lemma Ptr_slot_misaligned:
  assumes "Ptr AND 7 \<noteq> 0" "k \<noteq> CK_OffsetToTop"
  shows "VTableComponent_Ptr k Ptr = Inl Pointer_not_sufficiently_aligned"
  using assms by (simp add: VTableComponent_Ptr_eq)


lemma kind_predicates:
  "isDestructorKind c \<longleftrightarrow> getKind c = CK_CompleteDtorPointer \<or> getKind c = CK_DeletingDtorPointer"
  "isUsedFunctionPointerKind c \<longleftrightarrow>
     getKind c = CK_FunctionPointer \<or> getKind c = CK_CompleteDtorPointer \<or>
     getKind c = CK_DeletingDtorPointer"
  "isFunctionPointerKind c \<longleftrightarrow>
     getKind c = CK_FunctionPointer \<or> getKind c = CK_CompleteDtorPointer \<or>
     getKind c = CK_DeletingDtorPointer \<or> getKind c = CK_UnusedFunctionPointer"
  "isRTTIKind c \<longleftrightarrow> getKind c = CK_RTTI"
  by (auto simp add: isDestructorKind_def isUsedFunctionPointerKind_def isFunctionPointerKind_def
      isRTTIKind_def isDestructorKind_of_def isUsedFunctionPointerKind_of_def
      isFunctionPointerKind_of_def isRTTIKind_of_def)

lemma accessor_by_kind:
  "getKind c = CK_RTTI \<Longrightarrow> getRTTIDecl c = getPointer c"
  "getKind c = CK_VCallOffset \<Longrightarrow> getVCall c = getPointer c"
  "getKind c = CK_VBaseOffset \<Longrightarrow> getVBase c = getPointer c"
  "getKind c = CK_FunctionPointer \<Longrightarrow> getFunctionDecl c = getPointer c"
  "getKind c = CK_UnusedFunctionPointer \<Longrightarrow> getFunctionDecl c = getPointer c"
  "getKind c = CK_UnusedFunctionPointer \<Longrightarrow> getUnusedFunctionDecl c = getPointer c"
  "getKind c = CK_CompleteDtorPointer \<Longrightarrow> getDestructorDecl c = getPointer c"
  "getKind c = CK_DeletingDtorPointer \<Longrightarrow> getDestructorDecl c = getPointer c"
  "getKind c = CK_CompleteDtorPointer \<Longrightarrow> getFunctionDecl c = getPointer c"
  "getKind c = CK_DeletingDtorPointer \<Longrightarrow> getFunctionDecl c = getPointer c"
  by (simp_all add: getRTTIDecl_def getVCall_def getVBase_def getFunctionDecl_def
      getUnusedFunctionDecl_def getDestructorDecl_def kind_predicates)

lemma Ptr_slot_accessor:
  assumes "Ptr AND 7 = 0" "k \<noteq> CK_OffsetToTop" "\<And>c. getKind c = k \<Longrightarrow> get c = getPointer c"
  shows "\<exists>c. VTableComponent_Ptr k Ptr = Inr c \<and> get c = Inr Ptr"
proof -
  from Ptr_slot [OF assms(1,2)] obtain c
    where "VTableComponent_Ptr k Ptr = Inr c" "getKind c = k" "getPointer c = Inr Ptr"
    by blast
  then show ?thesis using assms(3) [of c] by simp
qed

lemma Ptr_slot_accessor2:
  assumes "Ptr AND 7 = 0" "k \<noteq> CK_OffsetToTop"
    and "\<And>c. getKind c = k \<Longrightarrow> get c = getPointer c"
    and "\<And>c. getKind c = k \<Longrightarrow> get' c = getPointer c"
  shows "\<exists>c. VTableComponent_Ptr k Ptr = Inr c \<and> get c = Inr Ptr \<and> get' c = Inr Ptr"
proof -
  from Ptr_slot [OF assms(1,2)] obtain c
    where "VTableComponent_Ptr k Ptr = Inr c" "getKind c = k" "getPointer c = Inr Ptr"
    by blast
  then show ?thesis using assms(3) [of c] assms(4) [of c] by simp
qed

text \<open>
  C4 (pointer-slot alignment precondition).  For every pointer-carrying kind, that is
  every kind but offset-to-top, constructing a slot from an address \<open>q\<close> whose low three
  bits are not all zero fails the alignment check, and constructing it from an 8-byte
  aligned address \<open>p\<close> succeeds, with the pointer accessors returning exactly \<open>p\<close>: the
  kind tag in the low three bits does not disturb the payload.  The same holds for the
  named constructors and their public accessors.
\<close>

theorem pointer_slot_alignment:
  assumes "ComponentKind \<noteq> CK_OffsetToTop"
    and "q AND 7 \<noteq> 0" and "p AND 7 = 0"
    and "isa_CXXDestructorDecl ast q = Inr False" and "isa_CXXDestructorDecl ast p = Inr False"
  shows "VTableComponent_Ptr ComponentKind q = Inl Pointer_not_sufficiently_aligned \<and>
         MakeRTTI q = Inl Pointer_not_sufficiently_aligned \<and>
         MakeFunction ast q = Inl Pointer_not_sufficiently_aligned \<and>
         MakeCompleteDtor q = Inl Pointer_not_sufficiently_aligned \<and>
         MakeDeletingDtor q = Inl Pointer_not_sufficiently_aligned \<and>
         MakeVCall q = Inl Pointer_not_sufficiently_aligned \<and>
         MakeVBase q = Inl Pointer_not_sufficiently_aligned \<and>
         (\<exists>c. VTableComponent_Ptr ComponentKind p = Inr c \<and> getKind c = ComponentKind \<and>
              getPointer c = Inr p) \<and>
         (\<exists>c. MakeRTTI p = Inr c \<and> getRTTIDecl c = Inr p) \<and>
         (\<exists>c. MakeFunction ast p = Inr c \<and> getFunctionDecl c = Inr p) \<and>
         (\<exists>c. MakeCompleteDtor p = Inr c \<and> getDestructorDecl c = Inr p \<and>
              getFunctionDecl c = Inr p) \<and>
         (\<exists>c. MakeDeletingDtor p = Inr c \<and> getDestructorDecl c = Inr p \<and>
              getFunctionDecl c = Inr p) \<and>
         (\<exists>c. MakeVCall p = Inr c \<and> getVCall c = Inr p) \<and>
         (\<exists>c. MakeVBase p = Inr c \<and> getVBase c = Inr p)"
proof (intro conjI)
  note bad = Ptr_slot_misaligned [OF assms(2)]
  note good = Ptr_slot [OF assms(3)]
  show "VTableComponent_Ptr ComponentKind q = Inl Pointer_not_sufficiently_aligned"
    using assms(1) by (rule bad)
  show "MakeRTTI q = Inl Pointer_not_sufficiently_aligned"
    unfolding MakeRTTI_def by (rule bad) simp
  show "MakeFunction ast q = Inl Pointer_not_sufficiently_aligned"
    using bad [of CK_FunctionPointer] by (simp add: MakeFunction_def assms(4))
  show "MakeCompleteDtor q = Inl Pointer_not_sufficiently_aligned"
    unfolding MakeCompleteDtor_def by (rule bad) simp
  show "MakeDeletingDtor q = Inl Pointer_not_sufficiently_aligned"
    unfolding MakeDeletingDtor_def by (rule bad) simp
  show "MakeVCall q = Inl Pointer_not_sufficiently_aligned"
    unfolding MakeVCall_def by (rule bad) simp
  show "MakeVBase q = Inl Pointer_not_sufficiently_aligned"
    unfolding MakeVBase_def by (rule bad) simp
  show "\<exists>c. VTableComponent_Ptr ComponentKind p = Inr c \<and> getKind c = ComponentKind \<and>
              getPointer c = Inr p"
    using assms(1) by (rule good)
  show "\<exists>c. MakeRTTI p = Inr c \<and> getRTTIDecl c = Inr p"
    unfolding MakeRTTI_def
    by (rule Ptr_slot_accessor [OF assms(3)]) (simp_all add: accessor_by_kind)
  show "\<exists>c. MakeFunction ast p = Inr c \<and> getFunctionDecl c = Inr p"
    using Ptr_slot_accessor [OF assms(3), of CK_FunctionPointer getFunctionDecl]
    by (simp add: MakeFunction_def assms(5) accessor_by_kind)
  show "\<exists>c. MakeCompleteDtor p = Inr c \<and> getDestructorDecl c = Inr p \<and>
              getFunctionDecl c = Inr p"
    unfolding MakeCompleteDtor_def
    by (rule Ptr_slot_accessor2 [OF assms(3)]) (simp_all add: accessor_by_kind)
  show "\<exists>c. MakeDeletingDtor p = Inr c \<and> getDestructorDecl c = Inr p \<and>
              getFunctionDecl c = Inr p"
    unfolding MakeDeletingDtor_def
    by (rule Ptr_slot_accessor2 [OF assms(3)]) (simp_all add: accessor_by_kind)
  show "\<exists>c. MakeVCall p = Inr c \<and> getVCall c = Inr p"
    unfolding MakeVCall_def
    by (rule Ptr_slot_accessor [OF assms(3)]) (simp_all add: accessor_by_kind)
  show "\<exists>c. MakeVBase p = Inr c \<and> getVBase c = Inr p"
    unfolding MakeVBase_def
    by (rule Ptr_slot_accessor [OF assms(3)]) (simp_all add: accessor_by_kind)
qed

theorem pointer_slot_alignment_witness:
  "CK_RTTI \<noteq> CK_OffsetToTop \<and> (4097 :: uintptr_t) AND 7 \<noteq> 0 \<and> (4096 :: uintptr_t) AND 7 = 0 \<and>
   isa_CXXDestructorDecl example_ast 4097 = Inr False \<and>
   isa_CXXDestructorDecl example_ast 4096 = Inr False \<and>
   MakeRTTI 4097 = Inl Pointer_not_sufficiently_aligned \<and>
   MakeRTTI 4096 = Inr \<lparr>Value = 4099\<rparr> \<and> getRTTIDecl \<lparr>Value = 4099\<rparr> = Inr 4096 \<and>
   MakeFunction example_ast 4097 = Inl Pointer_not_sufficiently_aligned \<and>
   MakeFunction example_ast 4096 = Inr \<lparr>Value = 4100\<rparr> \<and>
   getFunctionDecl \<lparr>Value = 4100\<rparr> = Inr 4096"
  using pointer_slot_alignment [of CK_RTTI 4097 4096 example_ast]
  by (simp add: example_ast_def isa_CXXDestructorDecl_def MakeRTTI_def MakeFunction_def
      VTableComponent_Ptr_eq getRTTIDecl_def getFunctionDecl_def getPointer_def getKind_def
      Kind_of_value_def isRTTIKind_def isRTTIKind_of_def isFunctionPointerKind_def
      isDestructorKind_def isFunctionPointerKind_of_def isUsedFunctionPointerKind_of_def
      isDestructorKind_of_def)


section \<open>Function-pointer slots\<close>

lemma MakeUnusedFunction_Inr:
  assumes "MakeUnusedFunction ast M = Inr c"
  shows "M AND 7 = 0" and "c = \<lparr>Value = M OR Kind_value CK_UnusedFunctionPointer\<rparr>"
    and "isa_CXXDestructorDecl ast M = Inr False"
  using assms
  by (auto simp add: MakeUnusedFunction_def VTableComponent_Ptr_eq
      split: sum.splits if_splits)

lemma MakeUnusedFunction_succeeds:
  assumes "ast M = Some m" "getDeclClass m \<noteq> CXXDestructorDecl" "M AND 7 = 0"
  shows "MakeUnusedFunction ast M = Inr \<lparr>Value = M OR Kind_value CK_UnusedFunctionPointer\<rparr>"
  using assms
  by (simp add: MakeUnusedFunction_def isa_CXXDestructorDecl_def VTableComponent_Ptr_eq)

text \<open>
  C10 (unused-function slots and \<open>getFunctionDecl\<close>).  Whenever \<open>MakeUnusedFunction\<close>
  builds a slot from a method \<open>M\<close> (which it does for every 8-byte aligned declaration
  that is not a destructor, see \<open>MakeUnusedFunction_succeeds\<close>), the slot passes the
  function-pointer-kind check of \<open>getFunctionDecl\<close>, and \<open>getFunctionDecl\<close> returns exactly
  \<open>M\<close>, the declaration that \<open>getUnusedFunctionDecl\<close> returns.
\<close>

theorem unused_function_slot_getFunctionDecl:
  assumes "MakeUnusedFunction ast M = Inr c"
  shows "getKind c = CK_UnusedFunctionPointer \<and> isFunctionPointerKind c \<and>
         getFunctionDecl c = Inr M \<and> getUnusedFunctionDecl c = Inr M"
proof -
  note c = MakeUnusedFunction_Inr [OF assms]
  have k: "getKind c = CK_UnusedFunctionPointer"
    unfolding c(2) using c(1) by (rule getKind_Ptr)
  have p: "getPointer c = Inr M"
    unfolding c(2) using c(1) by (rule getPointer_Ptr) simp
  show ?thesis
    using k p by (simp add: accessor_by_kind kind_predicates)
qed

theorem unused_function_slot_getFunctionDecl_witness:
  "MakeUnusedFunction example_ast 4096 = Inr \<lparr>Value = 4103\<rparr> \<and>
   getKind \<lparr>Value = 4103\<rparr> = CK_UnusedFunctionPointer \<and>
   isFunctionPointerKind \<lparr>Value = 4103\<rparr> \<and>
   getFunctionDecl \<lparr>Value = 4103\<rparr> = Inr 4096 \<and>
   getUnusedFunctionDecl \<lparr>Value = 4103\<rparr> = Inr 4096"
  using unused_function_slot_getFunctionDecl [of example_ast 4096 "\<lparr>Value = 4103\<rparr>"]
  by (simp add: MakeUnusedFunction_def example_ast_def isa_CXXDestructorDecl_def
      VTableComponent_Ptr_eq)

lemma getGlobalDecl_used:
  assumes "getFunctionDecl c = Inr D" "ast D = Some d" "isUsedFunctionPointerKind c"
  shows "getGlobalDecl ast c =
           (case getKind c of
              CK_FunctionPointer \<Rightarrow> Inr (GlobalDecl_Function D)
            | CK_CompleteDtorPointer \<Rightarrow>
                Inr (GlobalDecl_Dtor (if getDeclClass d = CXXDestructorDecl then D else 0)
                       Dtor_Complete)
            | CK_DeletingDtorPointer \<Rightarrow>
                Inr (GlobalDecl_Dtor (if getDeclClass d = CXXDestructorDecl then D else 0)
                       Dtor_Deleting)
            | _ \<Rightarrow> Inl Only_function_pointers_kinds)"
  using assms
  by (simp add: getGlobalDecl_def dyn_cast_CXXDestructorDecl_def isa_CXXDestructorDecl_def
      split: Kind.splits)

text \<open>
  C5 (\<open>getGlobalDecl\<close> mapping).  Each part stands on its own, for every slot and every
  translation unit.  An ordinary function-pointer slot whose pointer names a declaration
  maps to the \<open>GlobalDecl\<close> naming that method; a complete-destructor slot whose pointer
  names a destructor maps to the destructor with flavor \<open>Dtor_Complete\<close>, a
  deleting-destructor slot to the destructor with flavor \<open>Dtor_Deleting\<close>.  On a slot of a
  kind that bears no function pointer, and likewise on an unused-function slot, the call
  fails its precondition check.
\<close>

theorem getGlobalDecl_mapping:
  "(getKind f = CK_FunctionPointer \<and> getFunctionDecl f = Inr MD \<and> astf MD = Some m \<longrightarrow>
      getGlobalDecl astf f = Inr (GlobalDecl_Function MD)) \<and>
   (getKind cd = CK_CompleteDtorPointer \<and> getDestructorDecl cd = Inr CD \<and>
    astc CD = Some c \<and> getDeclClass c = CXXDestructorDecl \<longrightarrow>
      getGlobalDecl astc cd = Inr (GlobalDecl_Dtor CD Dtor_Complete)) \<and>
   (getKind dd = CK_DeletingDtorPointer \<and> getDestructorDecl dd = Inr DD \<and>
    astd DD = Some d \<and> getDeclClass d = CXXDestructorDecl \<longrightarrow>
      getGlobalDecl astd dd = Inr (GlobalDecl_Dtor DD Dtor_Deleting)) \<and>
   (\<not> isFunctionPointerKind n \<longrightarrow>
      getGlobalDecl astn n = Inl GlobalDecl_only_from_virtual_function) \<and>
   (getKind u = CK_UnusedFunctionPointer \<longrightarrow>
      getGlobalDecl astu u = Inl GlobalDecl_only_from_virtual_function)"
proof (intro conjI impI)
  assume h: "getKind f = CK_FunctionPointer \<and> getFunctionDecl f = Inr MD \<and> astf MD = Some m"
  then have "isUsedFunctionPointerKind f"
    by (simp add: kind_predicates)
  from getGlobalDecl_used [of f MD astf m, OF _ _ this] h
  show "getGlobalDecl astf f = Inr (GlobalDecl_Function MD)"
    by simp
next
  assume h: "getKind cd = CK_CompleteDtorPointer \<and> getDestructorDecl cd = Inr CD \<and>
    astc CD = Some c \<and> getDeclClass c = CXXDestructorDecl"
  then have "getKind cd = CK_CompleteDtorPointer"
    by simp
  then have "isUsedFunctionPointerKind cd" and "getFunctionDecl cd = getDestructorDecl cd"
    by (simp_all add: kind_predicates accessor_by_kind)
  with h have "isUsedFunctionPointerKind cd" and "getFunctionDecl cd = Inr CD"
    by simp_all
  from getGlobalDecl_used [of cd CD astc c, OF this(2) _ this(1)] h
  show "getGlobalDecl astc cd = Inr (GlobalDecl_Dtor CD Dtor_Complete)"
    by simp
next
  assume h: "getKind dd = CK_DeletingDtorPointer \<and> getDestructorDecl dd = Inr DD \<and>
    astd DD = Some d \<and> getDeclClass d = CXXDestructorDecl"
  then have "getKind dd = CK_DeletingDtorPointer"
    by simp
  then have "isUsedFunctionPointerKind dd" and "getFunctionDecl dd = getDestructorDecl dd"
    by (simp_all add: kind_predicates accessor_by_kind)
  with h have "isUsedFunctionPointerKind dd" and "getFunctionDecl dd = Inr DD"
    by simp_all
  from getGlobalDecl_used [of dd DD astd d, OF this(2) _ this(1)] h
  show "getGlobalDecl astd dd = Inr (GlobalDecl_Dtor DD Dtor_Deleting)"
    by simp
next
  assume "\<not> isFunctionPointerKind n"
  then show "getGlobalDecl astn n = Inl GlobalDecl_only_from_virtual_function"
    by (simp add: getGlobalDecl_def kind_predicates)
next
  assume "getKind u = CK_UnusedFunctionPointer"
  then show "getGlobalDecl astu u = Inl GlobalDecl_only_from_virtual_function"
    by (simp add: getGlobalDecl_def kind_predicates)
qed

theorem getGlobalDecl_mapping_witness:
  "getKind \<lparr>Value = 4100\<rparr> = CK_FunctionPointer \<and>
   getFunctionDecl \<lparr>Value = 4100\<rparr> = Inr 4096 \<and>
   example_methods_ast 4096 =
     Some \<lparr>getDeclClass = CXXMethodDecl, getCanonicalDecl = 4096, getParent = 8192\<rparr> \<and>
   getKind \<lparr>Value = 4109\<rparr> = CK_CompleteDtorPointer \<and>
   getDestructorDecl \<lparr>Value = 4109\<rparr> = Inr 4104 \<and>
   getKind \<lparr>Value = 4110\<rparr> = CK_DeletingDtorPointer \<and>
   getDestructorDecl \<lparr>Value = 4110\<rparr> = Inr 4104 \<and>
   \<not> isFunctionPointerKind \<lparr>Value = 8195\<rparr> \<and>
   getKind \<lparr>Value = 4103\<rparr> = CK_UnusedFunctionPointer \<and>
   getGlobalDecl example_methods_ast \<lparr>Value = 4100\<rparr> = Inr (GlobalDecl_Function 4096) \<and>
   getGlobalDecl example_ast \<lparr>Value = 4109\<rparr> = Inr (GlobalDecl_Dtor 4104 Dtor_Complete) \<and>
   getGlobalDecl example_ast \<lparr>Value = 4110\<rparr> = Inr (GlobalDecl_Dtor 4104 Dtor_Deleting) \<and>
   getGlobalDecl example_methods_ast \<lparr>Value = 8195\<rparr> =
     Inl GlobalDecl_only_from_virtual_function \<and>
   getGlobalDecl example_methods_ast \<lparr>Value = 4103\<rparr> =
     Inl GlobalDecl_only_from_virtual_function"
  using getGlobalDecl_mapping
      [where f = "\<lparr>Value = 4100\<rparr>" and MD = 4096 and astf = example_methods_ast
        and m = "\<lparr>getDeclClass = CXXMethodDecl, getCanonicalDecl = 4096, getParent = 8192\<rparr>"
        and cd = "\<lparr>Value = 4109\<rparr>" and CD = 4104 and astc = example_ast
        and c = "\<lparr>getDeclClass = CXXDestructorDecl, getCanonicalDecl = 4104, getParent = 8192\<rparr>"
        and dd = "\<lparr>Value = 4110\<rparr>" and DD = 4104 and astd = example_ast
        and d = "\<lparr>getDeclClass = CXXDestructorDecl, getCanonicalDecl = 4104, getParent = 8192\<rparr>"
        and n = "\<lparr>Value = 8195\<rparr>" and astn = example_methods_ast
        and u = "\<lparr>Value = 4103\<rparr>" and astu = example_methods_ast]
  by (simp add: example_ast_def example_methods_ast_def getKind_def Kind_of_value_def
      getFunctionDecl_def getDestructorDecl_def getPointer_def kind_predicates)


section \<open>Table layout queries\<close>

lemma ArrayRef_index_in_range:
  "unat i < length xs \<Longrightarrow> ArrayRef_index xs i = Inr (xs ! unat i)"
  by (simp add: ArrayRef_index_def)

lemma next_index:
  fixes i :: size_t
  assumes "unat i < n" "n < 2 ^ 64"
  shows "unat (i + 1) = Suc (unat i)" and "i + 1 = of_nat n \<longleftrightarrow> Suc (unat i) = n"
proof -
  have "unat (i + 1) = (unat i + 1) mod 2 ^ 64"
    by (simp add: unat_word_ariths)
  also have "\<dots> = Suc (unat i)"
    using assms by simp
  finally show s: "unat (i + 1) = Suc (unat i)" .
  have "unat (of_nat n :: size_t) = n"
    using assms(2) by (simp add: unat_of_nat)
  then show "i + 1 = of_nat n \<longleftrightarrow> Suc (unat i) = n"
    using s by (simp add: word_unat_eq_iff)
qed

lemma getVTableSize_nonempty:
  assumes "VTableIndices L \<noteq> []" "unat i < length (VTableIndices L)"
    and "length (VTableIndices L) < 2 ^ 64"
  shows "getVTableSize L i =
           Inr ((if Suc (unat i) = length (VTableIndices L)
                 then of_nat (length (VTableComponents L))
                 else VTableIndices L ! Suc (unat i)) - VTableIndices L ! unat i)"
proof (cases "Suc (unat i) = length (VTableIndices L)")
  case True
  then show ?thesis
    using assms next_index [OF assms(2,3)]
    by (simp add: getVTableSize_def ArrayRef_index_in_range ArrayRef_size_def
        vtable_components_def)
next
  case False
  with assms(2) have "unat (i + 1) < length (VTableIndices L)"
    using next_index(1) [OF assms(2,3)] by simp
  then have "ArrayRef_index (VTableIndices L) (i + 1) = Inr (VTableIndices L ! Suc (unat i))"
    using next_index(1) [OF assms(2,3)] by (simp add: ArrayRef_index_in_range)
  then show ?thesis
    using False assms next_index(2) [OF assms(2,3)]
    by (simp add: getVTableSize_def ArrayRef_index_in_range ArrayRef_size_def)
qed

text \<open>
  C2 (derived queries of \<open>VTableLayout\<close>).  \<open>getNumVTables\<close> is 1 for an empty start-index
  sequence and otherwise its length.  With an empty sequence, table 0 starts at 0 and
  has the size of the whole component sequence.  Otherwise \<open>getVTableOffset i\<close> is the
  \<open>i\<close>-th start index and \<open>getVTableSize i\<close> is the next table's start index (the length
  of the component sequence for the last table) minus the start index of table \<open>i\<close>.
  Start indices \<open>[0, 5, 9]\<close> over 12 components give 3 tables with offsets 0, 5, 9 and
  sizes 5, 4, 3.
\<close>

theorem VTableLayout_derived_queries:
  assumes "VTableIndices E = []"
    and "VTableIndices N \<noteq> []" and "unat i < length (VTableIndices N)"
    and "length (VTableIndices N) < 2 ^ 64"
    and "VTableIndices T = [0, 5, 9]" and "length (VTableComponents T) = 12"
  shows "getNumVTables L =
           (if VTableIndices L = [] then 1 else of_nat (length (VTableIndices L))) \<and>
         getNumVTables E = 1 \<and> getVTableOffset E 0 = Inr 0 \<and>
         getVTableSize E 0 = Inr (of_nat (length (VTableComponents E))) \<and>
         getNumVTables N = of_nat (length (VTableIndices N)) \<and>
         getVTableOffset N i = Inr (VTableIndices N ! unat i) \<and>
         getVTableSize N i =
           Inr ((if Suc (unat i) = length (VTableIndices N)
                 then of_nat (length (VTableComponents N))
                 else VTableIndices N ! Suc (unat i)) - VTableIndices N ! unat i) \<and>
         getNumVTables T = 3 \<and>
         getVTableOffset T 0 = Inr 0 \<and> getVTableOffset T 1 = Inr 5 \<and>
         getVTableOffset T 2 = Inr 9 \<and>
         getVTableSize T 0 = Inr 5 \<and> getVTableSize T 1 = Inr 4 \<and>
         getVTableSize T 2 = Inr 3"
proof (intro conjI)
  show "getNumVTables L =
          (if VTableIndices L = [] then 1 else of_nat (length (VTableIndices L)))"
    by (simp add: getNumVTables_def ArrayRef_size_def)
  show "getNumVTables E = 1" "getVTableOffset E 0 = Inr 0"
    "getVTableSize E 0 = Inr (of_nat (length (VTableComponents E)))"
    using assms(1)
    by (simp_all add: getNumVTables_def getVTableOffset_def getVTableSize_def
        ArrayRef_size_def vtable_components_def)
  show "getNumVTables N = of_nat (length (VTableIndices N))"
    using assms(2) by (simp add: getNumVTables_def ArrayRef_size_def)
  show "getVTableOffset N i = Inr (VTableIndices N ! unat i)"
    using assms(2,3) by (simp add: getVTableOffset_def ArrayRef_index_in_range)
  show "getVTableSize N i =
          Inr ((if Suc (unat i) = length (VTableIndices N)
                then of_nat (length (VTableComponents N))
                else VTableIndices N ! Suc (unat i)) - VTableIndices N ! unat i)"
    using assms(2,3,4) by (rule getVTableSize_nonempty)
  show "getNumVTables T = 3"
    using assms(5) by (simp add: getNumVTables_def ArrayRef_size_def)
  show "getVTableOffset T 0 = Inr 0" "getVTableOffset T 1 = Inr 5"
    "getVTableOffset T 2 = Inr 9"
    using assms(5) by (simp_all add: getVTableOffset_def ArrayRef_index_def)
  show "getVTableSize T 0 = Inr 5" "getVTableSize T 1 = Inr 4" "getVTableSize T 2 = Inr 3"
    using assms(5,6)
    by (simp_all add: getVTableSize_def ArrayRef_index_def ArrayRef_size_def
        vtable_components_def)
qed

theorem VTableLayout_derived_queries_witness:
  "VTableIndices example_single = [] \<and> VTableIndices example_group \<noteq> [] \<and>
   unat (2 :: size_t) < length (VTableIndices example_group) \<and>
   length (VTableIndices example_group) < 2 ^ 64 \<and>
   VTableIndices example_group = [0, 5, 9] \<and>
   length (VTableComponents example_group) = 12 \<and>
   getNumVTables example_single = 1 \<and> getVTableOffset example_single 0 = Inr 0 \<and>
   getVTableSize example_single 0 = Inr 2 \<and>
   getNumVTables example_group = 3 \<and>
   map (getVTableOffset example_group) [0, 1, 2] = [Inr 0, Inr 5, Inr 9] \<and>
   map (getVTableSize example_group) [0, 1, 2] = [Inr 5, Inr 4, Inr 3]"
  using VTableLayout_derived_queries
    [of example_single example_group 2 example_group example_group]
  by (simp add: example_single_def example_group_def)


section \<open>Thunk queries\<close>

lemma VTableContextBase_getThunkInfo_method:
  assumes "ast (getDecl GD) = Some D" "ast (getCanonicalDecl D) = Some M"
    and "classof_CXXMethodDecl (getDeclClass M)"
  shows "VTableContextBase_getThunkInfo ast compute ctx GD =
           (case compute (getParent M) ctx of
              Inl e \<Rightarrow> Inl e
            | Inr ctx' \<Rightarrow> Inr (Thunks ctx' (getCanonicalDecl D), ctx'))"
  using assms
  by (simp add: VTableContextBase_getThunkInfo_def cast_CXXMethodDecl_def
      split: sum.splits option.splits)

text \<open>
  C6 (shared thunk query).  For a \<open>GlobalDecl\<close> whose canonical declaration is a method,
  \<open>VTableContextBase::getThunkInfo\<close> runs the layout computation of the method's owning
  class and then looks the canonical method up in the thunk map that computation left
  behind: the result is the stored thunk list when the method is in the map and the null
  result \<open>None\<close>, an ordinary value and not a failure, when it is absent.
\<close>

theorem shared_thunk_query:
  assumes "ast (getDecl GD) = Some D" and "ast (getCanonicalDecl D) = Some M"
    and "classof_CXXMethodDecl (getDeclClass M)"
    and "compute (getParent M) ctx = Inr ctx'"
  shows "VTableContextBase_getThunkInfo ast compute ctx GD =
           Inr (Thunks ctx' (getCanonicalDecl D), ctx')"
  using VTableContextBase_getThunkInfo_method [OF assms(1,2,3), of compute ctx] assms(4)
  by simp

theorem shared_thunk_query_witness:
  "example_ast (getDecl (GlobalDecl_Function 4112)) =
     Some \<lparr>getDeclClass = CXXMethodDecl, getCanonicalDecl = 4096, getParent = 8192\<rparr> \<and>
   example_ast 4096 =
     Some \<lparr>getDeclClass = CXXMethodDecl, getCanonicalDecl = 4096, getParent = 8192\<rparr> \<and>
   classof_CXXMethodDecl CXXMethodDecl \<and>
   example_compute 8192 example_ctx = Inr example_ctx_computed \<and>
   Thunks example_ctx 4096 = None \<and>
   VTableContextBase_getThunkInfo example_ast example_compute example_ctx
     (GlobalDecl_Function 4112) = Inr (Some [7], example_ctx_computed) \<and>
   VTableContextBase_getThunkInfo example_ast example_compute example_ctx
     (GlobalDecl_Function 4120) = Inr (None, example_ctx_computed)"
  using shared_thunk_query [of example_ast "GlobalDecl_Function 4112"
      "\<lparr>getDeclClass = CXXMethodDecl, getCanonicalDecl = 4096, getParent = 8192\<rparr>"
      "\<lparr>getDeclClass = CXXMethodDecl, getCanonicalDecl = 4096, getParent = 8192\<rparr>"
      example_compute example_ctx example_ctx_computed]
    shared_thunk_query [of example_ast "GlobalDecl_Function 4120"
      "\<lparr>getDeclClass = CXXMethodDecl, getCanonicalDecl = 4120, getParent = 8192\<rparr>"
      "\<lparr>getDeclClass = CXXMethodDecl, getCanonicalDecl = 4120, getParent = 8192\<rparr>"
      example_compute example_ctx example_ctx_computed]
  by (simp add: example_ast_def example_compute_def example_ctx_def example_ctx_computed_def
      classof_CXXMethodDecl_def)

text \<open>
  C3 (Microsoft destructor omission).  For a destructor queried in its complete-object
  flavor, \<open>MicrosoftVTableContext::getThunkInfo\<close> returns the null result whatever the
  thunk map holds, and leaves the builder untouched: neither the layout computation nor
  the map lookup takes place.  For every other \<open>GlobalDecl\<close> that names a declaration,
  in any translation unit and any builder state, it is the shared
  \<open>VTableContextBase::getThunkInfo\<close>.  The two parts are independent of each other.
\<close>

theorem Microsoft_destructor_omission:
  "(ast (getDecl GD) = Some D \<and> getDeclClass D = CXXDestructorDecl \<and>
    getDtorType GD = Some Dtor_Complete \<longrightarrow>
      MicrosoftVTableContext_getThunkInfo ast compute ctx GD = Inr (None, ctx)) \<and>
   (ast_o (getDecl GD_o) = Some D_o \<and>
    (getDeclClass D_o \<noteq> CXXDestructorDecl \<or> getDtorType GD_o \<noteq> Some Dtor_Complete) \<longrightarrow>
      MicrosoftVTableContext_getThunkInfo ast_o compute_o ctx_o GD_o =
        VTableContextBase_getThunkInfo ast_o compute_o ctx_o GD_o)"
proof (intro conjI impI)
  assume "ast (getDecl GD) = Some D \<and> getDeclClass D = CXXDestructorDecl \<and>
    getDtorType GD = Some Dtor_Complete"
  then show "MicrosoftVTableContext_getThunkInfo ast compute ctx GD = Inr (None, ctx)"
    by (simp add: MicrosoftVTableContext_getThunkInfo_def isa_CXXDestructorDecl_def)
next
  assume "ast_o (getDecl GD_o) = Some D_o \<and>
    (getDeclClass D_o \<noteq> CXXDestructorDecl \<or> getDtorType GD_o \<noteq> Some Dtor_Complete)"
  then show "MicrosoftVTableContext_getThunkInfo ast_o compute_o ctx_o GD_o =
      VTableContextBase_getThunkInfo ast_o compute_o ctx_o GD_o"
    by (auto simp add: MicrosoftVTableContext_getThunkInfo_def isa_CXXDestructorDecl_def)
qed

theorem Microsoft_destructor_omission_witness:
  "example_ast (getDecl (GlobalDecl_Dtor 4104 Dtor_Complete)) =
     Some \<lparr>getDeclClass = CXXDestructorDecl, getCanonicalDecl = 4104, getParent = 8192\<rparr> \<and>
   getDtorType (GlobalDecl_Dtor 4104 Dtor_Complete) = Some Dtor_Complete \<and>
   getDtorType (GlobalDecl_Dtor 4104 Dtor_Deleting) \<noteq> Some Dtor_Complete \<and>
   Thunks example_ctx_computed 4104 = Some [1, 2] \<and>
   MicrosoftVTableContext_getThunkInfo example_ast example_compute example_ctx_computed
     (GlobalDecl_Dtor 4104 Dtor_Complete) = Inr (None, example_ctx_computed) \<and>
   MicrosoftVTableContext_getThunkInfo example_ast example_compute example_ctx
     (GlobalDecl_Dtor 4104 Dtor_Complete) = Inr (None, example_ctx) \<and>
   MicrosoftVTableContext_getThunkInfo example_ast example_compute example_ctx_computed
     (GlobalDecl_Dtor 4104 Dtor_Deleting) = Inr (Some [1, 2], example_ctx_computed) \<and>
   VTableContextBase_getThunkInfo example_ast example_compute example_ctx_computed
     (GlobalDecl_Dtor 4104 Dtor_Deleting) = Inr (Some [1, 2], example_ctx_computed) \<and>
   example_methods_ast (getDecl (GlobalDecl_Function 4112)) =
     Some \<lparr>getDeclClass = CXXMethodDecl, getCanonicalDecl = 4096, getParent = 8192\<rparr> \<and>
   MicrosoftVTableContext_getThunkInfo example_methods_ast example_compute example_ctx
     (GlobalDecl_Function 4112) = Inr (Some [7], example_ctx_computed) \<and>
   VTableContextBase_getThunkInfo example_methods_ast example_compute example_ctx
     (GlobalDecl_Function 4112) = Inr (Some [7], example_ctx_computed)"
  using Microsoft_destructor_omission
      [where ast = example_ast and GD = "GlobalDecl_Dtor 4104 Dtor_Complete"
        and D = "\<lparr>getDeclClass = CXXDestructorDecl, getCanonicalDecl = 4104, getParent = 8192\<rparr>"
        and compute = example_compute and ctx = example_ctx_computed
        and ast_o = example_ast and GD_o = "GlobalDecl_Dtor 4104 Dtor_Deleting"
        and D_o = "\<lparr>getDeclClass = CXXDestructorDecl, getCanonicalDecl = 4104, getParent = 8192\<rparr>"
        and compute_o = example_compute and ctx_o = example_ctx_computed]
    Microsoft_destructor_omission
      [where ast = example_ast and GD = "GlobalDecl_Dtor 4104 Dtor_Complete"
        and D = "\<lparr>getDeclClass = CXXDestructorDecl, getCanonicalDecl = 4104, getParent = 8192\<rparr>"
        and compute = example_compute and ctx = example_ctx
        and ast_o = example_methods_ast and GD_o = "GlobalDecl_Function 4112"
        and D_o = "\<lparr>getDeclClass = CXXMethodDecl, getCanonicalDecl = 4096, getParent = 8192\<rparr>"
        and compute_o = example_compute and ctx_o = example_ctx]
  by (simp add: example_ast_def example_methods_ast_def example_compute_def example_ctx_def
      example_ctx_computed_def VTableContextBase_getThunkInfo_def cast_CXXMethodDecl_def
      classof_CXXMethodDecl_def)


section \<open>Ordering of method locations\<close>

lemma operator_less_cases:
  "operator_less a b =
     (if VBTableIndex a \<noteq> VBTableIndex b \<and> VBase a = VBase b then Inl VBase_not_distinct
      else if VBTableIndex a \<noteq> VBTableIndex b then Inr (VBTableIndex a < VBTableIndex b)
      else Inr (tie_less (VFPtrOffset a, Index a) (VFPtrOffset b, Index b)))"
  by (simp add: operator_less_def)

lemma tie_less_key:
  "tie_less (x, i) (y, j) \<longleftrightarrow>
     sint (getQuantity x) < sint (getQuantity y) \<or>
     (sint (getQuantity x) = sint (getQuantity y) \<and> unat i < unat j)"
  by (auto simp add: tie_less_def CharUnits_less_def word_less_nat_alt)

lemma operator_less_lexicographic:
  assumes "VBTableIndex a = VBTableIndex b \<or> VBase a \<noteq> VBase b"
  shows "operator_less a b = Inr (lexicographic_less (location_key a) (location_key b))"
proof (cases "VBTableIndex a = VBTableIndex b")
  case True
  then show ?thesis
    by (simp add: operator_less_cases tie_less_key lexicographic_less_def location_key_def)
next
  case False
  then have "unat (VBTableIndex a) \<noteq> unat (VBTableIndex b)"
    by (simp add: word_unat_eq_iff)
  with False assms show ?thesis
    by (simp add: operator_less_cases lexicographic_less_def location_key_def
        word_less_nat_alt)
qed

lemma lexicographic_less_strict_total:
  "\<not> lexicographic_less x x"
  "lexicographic_less x y \<Longrightarrow> lexicographic_less y z \<Longrightarrow> lexicographic_less x z"
  "lexicographic_less x y \<or> x = y \<or> lexicographic_less y x"
  by (auto simp add: lexicographic_less_def prod_eq_iff)

lemma location_key_eq_iff:
  "location_key a = location_key b \<longleftrightarrow>
     VBTableIndex a = VBTableIndex b \<and> VFPtrOffset a = VFPtrOffset b \<and> Index a = Index b"
proof -
  have "sint (getQuantity x) = sint (getQuantity y) \<longleftrightarrow> x = y" for x y :: CharUnits
    by (cases x; cases y) (auto intro: signed_word_eqI)
  then show ?thesis
    by (simp add: location_key_def word_unat_eq_iff)
qed

text \<open>
  C7, as \<open>operator<\<close> has it.  The assertion in \<open>operator<\<close> fires exactly when the two
  indices differ and the virtual bases are the same.  So whenever a comparison returns,
  two locations with the same virtual base carry the same virtual-base-table index: the
  virtual base determines the index.  Nothing is checked when the indices are equal.
\<close>

theorem compared_locations_same_base_same_index:
  assumes "operator_less a b = Inr r" and "VBase a = VBase b"
  shows "VBTableIndex a = VBTableIndex b \<and>
         (operator_less a' b' = Inl VBase_not_distinct \<longleftrightarrow>
            VBTableIndex a' \<noteq> VBTableIndex b' \<and> VBase a' = VBase b')"
  using assms by (auto simp add: operator_less_cases split: if_splits)

theorem compared_locations_same_base_same_index_witness:
  "operator_less
     \<lparr>VBTableIndex = 1, VBase = 8192, VFPtrOffset = fromQuantity 0, Index = 0\<rparr>
     \<lparr>VBTableIndex = 1, VBase = 8192, VFPtrOffset = fromQuantity 8, Index = 2\<rparr> = Inr True \<and>
   VBase \<lparr>VBTableIndex = 1, VBase = 8192, VFPtrOffset = fromQuantity 0, Index = 0\<rparr> =
   VBase \<lparr>VBTableIndex = 1, VBase = 8192, VFPtrOffset = fromQuantity 8, Index = 2\<rparr> \<and>
   VBTableIndex \<lparr>VBTableIndex = 1, VBase = 8192, VFPtrOffset = fromQuantity 0, Index = 0\<rparr> =
   VBTableIndex \<lparr>VBTableIndex = 1, VBase = 8192, VFPtrOffset = fromQuantity 8, Index = 2\<rparr> \<and>
   operator_less
     \<lparr>VBTableIndex = 1, VBase = 8192, VFPtrOffset = fromQuantity 0, Index = 0\<rparr>
     \<lparr>VBTableIndex = 2, VBase = 8192, VFPtrOffset = fromQuantity 0, Index = 0\<rparr> =
     Inl VBase_not_distinct"
  using compared_locations_same_base_same_index
    [of "\<lparr>VBTableIndex = 1, VBase = 8192, VFPtrOffset = fromQuantity 0, Index = 0\<rparr>"
        "\<lparr>VBTableIndex = 1, VBase = 8192, VFPtrOffset = fromQuantity 8, Index = 2\<rparr>" True
        "\<lparr>VBTableIndex = 1, VBase = 8192, VFPtrOffset = fromQuantity 0, Index = 0\<rparr>"
        "\<lparr>VBTableIndex = 2, VBase = 8192, VFPtrOffset = fromQuantity 0, Index = 0\<rparr>"]
  by (simp add: operator_less_def tie_less_def CharUnits_less_def)

text \<open>
  The claim C7 as the specification words it fails: two locations with the same
  virtual-base-table index and different virtual bases are compared without any failure.
\<close>

theorem equal_index_distinct_bases_compared:
  "operator_less
     \<lparr>VBTableIndex = 1, VBase = 8192, VFPtrOffset = fromQuantity 0, Index = 0\<rparr>
     \<lparr>VBTableIndex = 1, VBase = 12288, VFPtrOffset = fromQuantity 0, Index = 1\<rparr> = Inr True \<and>
   VBTableIndex \<lparr>VBTableIndex = 1, VBase = 8192, VFPtrOffset = fromQuantity 0, Index = 0\<rparr> =
   VBTableIndex \<lparr>VBTableIndex = 1, VBase = 12288, VFPtrOffset = fromQuantity 0, Index = 1\<rparr> \<and>
   VBase \<lparr>VBTableIndex = 1, VBase = 8192, VFPtrOffset = fromQuantity 0, Index = 0\<rparr> \<noteq>
   VBase \<lparr>VBTableIndex = 1, VBase = 12288, VFPtrOffset = fromQuantity 0, Index = 1\<rparr>"
  by (simp add: operator_less_def tie_less_def CharUnits_less_def)

lemma operator_less_Inr_guard:
  assumes "operator_less a b = Inr r"
  shows "VBTableIndex a = VBTableIndex b \<or> VBase a \<noteq> VBase b"
  using assms by (auto simp add: operator_less_cases split: if_splits)

lemma operator_less_True_iff:
  "operator_less a b = Inr True \<longleftrightarrow>
     (VBTableIndex a = VBTableIndex b \<or> VBase a \<noteq> VBase b) \<and>
     lexicographic_less (location_key a) (location_key b)"
  using operator_less_Inr_guard [of a b True] operator_less_lexicographic [of a b]
  by auto

text \<open>
  C8, with the guard of \<open>operator<\<close>.  On every pair that passes the assertion (equal
  indices, or different virtual bases) \<open>operator<\<close> is the strict lexicographic order on
  the virtual-base-table index, then the vfptr offset, then the slot index.  That order
  is irreflexive and total on these triples, and \<open>operator<\<close> is transitive wherever the
  outer pair passes the assertion as well.  Two locations that agree on all three
  components compare without failure, and neither is less than the other.
\<close>

theorem operator_less_guarded_lexicographic:
  assumes "VBTableIndex a = VBTableIndex b \<or> VBase a \<noteq> VBase b"
    and "VBTableIndex c = VBTableIndex d" and "VFPtrOffset c = VFPtrOffset d"
    and "Index c = Index d"
    and "operator_less x y = Inr True" and "operator_less y z = Inr True"
    and "VBTableIndex x = VBTableIndex z \<or> VBase x \<noteq> VBase z"
  shows "operator_less a b = Inr (lexicographic_less (location_key a) (location_key b)) \<and>
         operator_less c d = Inr False \<and> operator_less d c = Inr False \<and>
         operator_less x z = Inr True \<and>
         \<not> lexicographic_less (location_key a) (location_key a) \<and>
         (lexicographic_less (location_key a) (location_key b) \<or>
          location_key a = location_key b \<or>
          lexicographic_less (location_key b) (location_key a))"
proof (intro conjI)
  show "operator_less a b = Inr (lexicographic_less (location_key a) (location_key b))"
    using assms(1) by (rule operator_less_lexicographic)
  have k: "location_key c = location_key d"
    using assms(2,3,4) by (simp add: location_key_eq_iff)
  show "operator_less c d = Inr False"
    using operator_less_lexicographic [of c d] assms(2) k
    by (simp add: lexicographic_less_strict_total)
  show "operator_less d c = Inr False"
    using operator_less_lexicographic [of d c] assms(2) k
    by (simp add: lexicographic_less_strict_total)
  have "lexicographic_less (location_key x) (location_key y)"
    and "lexicographic_less (location_key y) (location_key z)"
    using assms(5,6) by (simp_all add: operator_less_True_iff)
  then have "lexicographic_less (location_key x) (location_key z)"
    by (rule lexicographic_less_strict_total)
  with assms(7) show "operator_less x z = Inr True"
    by (simp add: operator_less_True_iff)
  show "\<not> lexicographic_less (location_key a) (location_key a)"
    by (rule lexicographic_less_strict_total)
  show "lexicographic_less (location_key a) (location_key b) \<or>
        location_key a = location_key b \<or>
        lexicographic_less (location_key b) (location_key a)"
    by (rule lexicographic_less_strict_total)
qed

theorem operator_less_guarded_lexicographic_witness:
  "(VBTableIndex \<lparr>VBTableIndex = 1, VBase = 8192, VFPtrOffset = fromQuantity (- 8), Index = 3\<rparr> \<noteq>
    VBTableIndex \<lparr>VBTableIndex = 2, VBase = 12288, VFPtrOffset = fromQuantity (- 16), Index = 0\<rparr>) \<and>
   (VBase \<lparr>VBTableIndex = 1, VBase = 8192, VFPtrOffset = fromQuantity (- 8), Index = 3\<rparr> \<noteq>
    VBase \<lparr>VBTableIndex = 2, VBase = 12288, VFPtrOffset = fromQuantity (- 16), Index = 0\<rparr>) \<and>
   operator_less
     \<lparr>VBTableIndex = 1, VBase = 8192, VFPtrOffset = fromQuantity (- 8), Index = 3\<rparr>
     \<lparr>VBTableIndex = 2, VBase = 12288, VFPtrOffset = fromQuantity (- 16), Index = 0\<rparr> =
     Inr True \<and>
   lexicographic_less
     (location_key \<lparr>VBTableIndex = 1, VBase = 8192, VFPtrOffset = fromQuantity (- 8), Index = 3\<rparr>)
     (location_key \<lparr>VBTableIndex = 2, VBase = 12288, VFPtrOffset = fromQuantity (- 16), Index = 0\<rparr>) \<and>
   operator_less
     \<lparr>VBTableIndex = 1, VBase = 8192, VFPtrOffset = fromQuantity (- 8), Index = 3\<rparr>
     \<lparr>VBTableIndex = 1, VBase = 12288, VFPtrOffset = fromQuantity (- 8), Index = 3\<rparr> =
     Inr False \<and>
   operator_less
     \<lparr>VBTableIndex = 1, VBase = 12288, VFPtrOffset = fromQuantity (- 8), Index = 3\<rparr>
     \<lparr>VBTableIndex = 1, VBase = 8192, VFPtrOffset = fromQuantity (- 8), Index = 3\<rparr> =
     Inr False \<and>
   operator_less
     \<lparr>VBTableIndex = 1, VBase = 8192, VFPtrOffset = fromQuantity (- 8), Index = 3\<rparr>
     \<lparr>VBTableIndex = 1, VBase = 8192, VFPtrOffset = fromQuantity (- 8), Index = 4\<rparr> =
     Inr True \<and>
   operator_less
     \<lparr>VBTableIndex = 1, VBase = 8192, VFPtrOffset = fromQuantity (- 8), Index = 4\<rparr>
     \<lparr>VBTableIndex = 1, VBase = 8192, VFPtrOffset = fromQuantity 8, Index = 0\<rparr> =
     Inr True \<and>
   operator_less
     \<lparr>VBTableIndex = 1, VBase = 8192, VFPtrOffset = fromQuantity (- 8), Index = 3\<rparr>
     \<lparr>VBTableIndex = 1, VBase = 8192, VFPtrOffset = fromQuantity 8, Index = 0\<rparr> =
     Inr True"
  using operator_less_guarded_lexicographic
    [of "\<lparr>VBTableIndex = 1, VBase = 8192, VFPtrOffset = fromQuantity (- 8), Index = 3\<rparr>"
        "\<lparr>VBTableIndex = 2, VBase = 12288, VFPtrOffset = fromQuantity (- 16), Index = 0\<rparr>"
        "\<lparr>VBTableIndex = 1, VBase = 8192, VFPtrOffset = fromQuantity (- 8), Index = 3\<rparr>"
        "\<lparr>VBTableIndex = 1, VBase = 12288, VFPtrOffset = fromQuantity (- 8), Index = 3\<rparr>"
        "\<lparr>VBTableIndex = 1, VBase = 8192, VFPtrOffset = fromQuantity (- 8), Index = 3\<rparr>"
        "\<lparr>VBTableIndex = 1, VBase = 8192, VFPtrOffset = fromQuantity (- 8), Index = 4\<rparr>"
        "\<lparr>VBTableIndex = 1, VBase = 8192, VFPtrOffset = fromQuantity 8, Index = 0\<rparr>"]
  by (simp add: lexicographic_less_def location_key_def operator_less_def tie_less_def
      CharUnits_less_def)

text \<open>
  The claim C8 as the specification words it fails on a pair with different indices and
  the same virtual base: the first is below the second in the lexicographic order, but
  \<open>operator<\<close> stops at its assertion instead of answering.
\<close>

theorem operator_less_assertion_fires:
  "operator_less
     \<lparr>VBTableIndex = 0, VBase = 8192, VFPtrOffset = fromQuantity 0, Index = 0\<rparr>
     \<lparr>VBTableIndex = 1, VBase = 8192, VFPtrOffset = fromQuantity 0, Index = 0\<rparr> =
     Inl VBase_not_distinct \<and>
   lexicographic_less
     (location_key \<lparr>VBTableIndex = 0, VBase = 8192, VFPtrOffset = fromQuantity 0, Index = 0\<rparr>)
     (location_key \<lparr>VBTableIndex = 1, VBase = 8192, VFPtrOffset = fromQuantity 0, Index = 0\<rparr>)"
  by (simp add: operator_less_def lexicographic_less_def location_key_def)


section \<open>The nullability fixture\<close>












end
